theory Spec2Isabelle
  imports Complex_Main "HOL-Library.Word" "HOL-Library.AList"
begin

section \<open>Strings\<close>

text \<open>
  A JavaScript string is a sequence of UTF-16 code units. The chat page uses characters
  outside ASCII (the ellipsis U+2026 of a truncated title, the emoji of the canned reply),
  and both \<open>trim\<close> and the regular expression class \<open>\s\<close> know the Unicode white space,
  so a string is modelled as a list of 16-bit words.
\<close>

type_synonym jschar = "16 word"
type_synonym jsstring = "jschar list"

definition ascii :: "string \<Rightarrow> jsstring" where
  "ascii s = map of_char s"

text \<open>
  The code units that ECMAScript counts as WhiteSpace or LineTerminator. \<open>String.prototype.trim\<close>
  strips exactly these, and \<open>\s\<close> matches exactly these.
\<close>

definition isWhiteSpace :: "jschar \<Rightarrow> bool" where
  "isWhiteSpace c \<longleftrightarrow>
     c = 0x09 \<or> c = 0x0A \<or> c = 0x0B \<or> c = 0x0C \<or> c = 0x0D \<or> c = 0x20 \<or> c = 0xA0 \<or>
     c = 0x1680 \<or> (0x2000 \<le> c \<and> c \<le> 0x200A) \<or> c = 0x2028 \<or> c = 0x2029 \<or>
     c = 0x202F \<or> c = 0x205F \<or> c = 0x3000 \<or> c = 0xFEFF"

definition trim :: "jsstring \<Rightarrow> jsstring" where
  "trim s = rev (dropWhile isWhiteSpace (rev (dropWhile isWhiteSpace s)))"

text \<open>
  \<open>s.split(/\s+/)\<close>: the pieces of \<open>s\<close> between the maximal runs of white space. A run at
  the start or at the end of \<open>s\<close> leaves an empty piece there, and the empty string splits
  into one empty piece.
\<close>

function split_ws :: "jsstring \<Rightarrow> jsstring list" where
  "split_ws s =
     (let tok = takeWhile (\<lambda>c. \<not> isWhiteSpace c) s;
          rest = dropWhile (\<lambda>c. \<not> isWhiteSpace c) s
      in if rest = [] then [tok] else tok # split_ws (dropWhile isWhiteSpace rest))"
  by pat_completeness auto

lemma dropWhile_not_head: "dropWhile (\<lambda>c. \<not> P c) s = a # l \<Longrightarrow> P a"
  using hd_dropWhile [of "\<lambda>c. \<not> P c" s] by auto

lemma split_ws_decreases:
  assumes "dropWhile (\<lambda>c. \<not> isWhiteSpace c) s \<noteq> []"
  shows "length (dropWhile isWhiteSpace (dropWhile (\<lambda>c. \<not> isWhiteSpace c) s)) < length s"
proof -
  obtain a l where al: "dropWhile (\<lambda>c. \<not> isWhiteSpace c) s = a # l"
    using assms by (cases "dropWhile (\<lambda>c. \<not> isWhiteSpace c) s") auto
  have "isWhiteSpace a" using al by (rule dropWhile_not_head)
  then have "length (dropWhile isWhiteSpace (a # l)) \<le> length l"
    by (simp add: length_dropWhile_le)
  moreover have "length (a # l) \<le> length s"
    using length_dropWhile_le [of "\<lambda>c. \<not> isWhiteSpace c" s] al by simp
  ultimately show ?thesis using al by simp
qed

termination split_ws
  by (relation "measure length") (auto simp: split_ws_decreases)

declare split_ws.simps [simp del]

fun join :: "jsstring \<Rightarrow> jsstring list \<Rightarrow> jsstring" where
  "join sep [] = []"
| "join sep [x] = x"
| "join sep (x # y # ys) = x @ sep @ join sep (y # ys)"

section \<open>Constants of the page\<close>

definition ASSISTANT_REPLY :: jsstring where
  "ASSISTANT_REPLY = ascii ''ok '' @ [0xD83D, 0xDC4D]"

definition DEFAULT_CHAT_TITLE :: jsstring where
  "DEFAULT_CHAT_TITLE = ascii ''New chat''"

definition ELLIPSIS :: jsstring where
  "ELLIPSIS = [0x2026]"

section \<open>Titles\<close>

definition buildTitleFromMessage :: "jsstring \<Rightarrow> jsstring" where
  "buildTitleFromMessage content =
     (let cleaned = trim content in
      if cleaned = [] then DEFAULT_CHAT_TITLE
      else let words = split_ws cleaned;
               firstThree = join (ascii '' '') (take 3 words)
           in if length words > 3 then firstThree @ ELLIPSIS else firstThree)"

definition splitTokens :: "jsstring \<Rightarrow> jsstring list" where
  "splitTokens content = filter (\<lambda>t. t \<noteq> []) (split_ws (trim content))"

subsection \<open>A trimmed string splits into non-empty words\<close>

lemma trim_empty_or_edges:
  "trim s = [] \<or> (\<not> isWhiteSpace (hd (trim s)) \<and> \<not> isWhiteSpace (last (trim s)))"
proof (cases "trim s = []")
  case True
  then show ?thesis by simp
next
  case False
  let ?d = "dropWhile isWhiteSpace s"
  let ?r = "dropWhile isWhiteSpace (rev ?d)"
  have r_ne: "?r \<noteq> []" using False by (simp add: trim_def)
  then have d_ne: "?d \<noteq> []" by (cases "?d = []") simp_all
  have last_ok: "\<not> isWhiteSpace (hd ?r)" using r_ne by (rule hd_dropWhile)
  have "last (trim s) = hd ?r" using r_ne by (simp add: trim_def last_rev)
  then have l: "\<not> isWhiteSpace (last (trim s))" using last_ok by simp
  have hd_d: "\<not> isWhiteSpace (hd ?d)" using d_ne by (rule hd_dropWhile)
  have "hd (trim s) = last ?r" using r_ne by (simp add: trim_def hd_rev)
  also have "last ?r = last (rev ?d)"
    using r_ne by (metis append_Nil2 last_appendR takeWhile_dropWhile_id)
  also have "\<dots> = hd ?d" using d_ne by (simp add: last_rev)
  finally have "\<not> isWhiteSpace (hd (trim s))" using hd_d by simp
  then show ?thesis using l by simp
qed

lemma split_ws_no_empty:
  "s \<noteq> [] \<Longrightarrow> \<not> isWhiteSpace (hd s) \<Longrightarrow> \<not> isWhiteSpace (last s) \<Longrightarrow> [] \<notin> set (split_ws s)"
proof (induction s rule: split_ws.induct)
  case (1 s)
  let ?tok = "takeWhile (\<lambda>c. \<not> isWhiteSpace c) s"
  let ?rest = "dropWhile (\<lambda>c. \<not> isWhiteSpace c) s"
  let ?next = "dropWhile isWhiteSpace ?rest"
  have tok_ne: "?tok \<noteq> []" using "1.prems" by (cases s) auto
  show ?case
  proof (cases "?rest = []")
    case True
    then show ?thesis using tok_ne by (subst split_ws.simps) (simp add: Let_def)
  next
    case False
    have last_rest: "last ?rest = last s"
      using False by (metis last_appendR takeWhile_dropWhile_id)
    have "\<exists>c \<in> set ?rest. \<not> isWhiteSpace c"
      using False last_rest "1.prems"(3) last_in_set by metis
    then have next_ne: "?next \<noteq> []" by (simp add: dropWhile_eq_Nil_conv)
    have hd_next: "\<not> isWhiteSpace (hd ?next)" using next_ne by (rule hd_dropWhile)
    have "last ?next = last ?rest"
      using next_ne by (metis last_appendR takeWhile_dropWhile_id)
    then have last_next: "\<not> isWhiteSpace (last ?next)"
      using last_rest "1.prems"(3) by simp
    have "[] \<notin> set (split_ws ?next)"
      using "1.IH" [OF refl refl False next_ne hd_next last_next] .
    then show ?thesis using tok_ne False by (subst split_ws.simps) (simp add: Let_def)
  qed
qed

lemma split_ws_trim_no_empty: "trim s \<noteq> [] \<Longrightarrow> [] \<notin> set (split_ws (trim s))"
  using trim_empty_or_edges [of s] split_ws_no_empty [of "trim s"] by blast

lemma splitTokens_trimmed: "trim s \<noteq> [] \<Longrightarrow> splitTokens s = split_ws (trim s)"
  unfolding splitTokens_def using split_ws_trim_no_empty [of s]
  by (metis (mono_tags, lifting) filter_True)

section \<open>Data model\<close>

datatype Role = User | Assistant

datatype Status = Thinking | Done

datatype Reaction = Like | Dislike

text \<open>
  \<open>createdAt\<close> holds a reading of \<open>Date.now()\<close>, a whole number of milliseconds, and
  \<open>version\<close> a counter that starts at 0 and grows by one: both are integers here. (A
  JavaScript number is a double, on which adding one is exact below \<open>2 ^ 53\<close>.)
\<close>

record Message =
  msg_id :: jsstring
  role :: Role
  content :: jsstring
  msg_createdAt :: int
  liked :: bool
  disliked :: bool
  status :: Status
  version :: int

record Chat =
  chat_id :: jsstring
  title :: jsstring
  messages :: "Message list"
  chat_createdAt :: int
  updatedAt :: int
  isCustomTitle :: bool

text \<open>
  A timeout set by \<open>startAssistantResponse\<close>: the handle that \<open>setTimeout\<close> returned and
  the two identifiers its callback has captured.
\<close>

record Timer =
  handle :: nat
  timer_chatId :: jsstring
  timer_messageId :: jsstring

text \<open>
  The state of the \<open>Home\<close> component that the handlers read and write, together with the
  part of the browser they act on: the timeouts not yet fired (\<open>scheduled\<close>) and the next
  handle \<open>setTimeout\<close> hands out. \<open>timersRef\<close> is the object of handles keyed by message id.
\<close>

record Home =
  chats :: "Chat list"
  activeChatId :: "jsstring option"
  input :: jsstring
  sidebarCollapsed :: bool
  mobileSidebarOpen :: bool
  isMobile :: bool
  editingChatId :: "jsstring option"
  renameValue :: jsstring
  timersRef :: "(jsstring \<times> nat) list"
  scheduled :: "Timer list"
  nextHandle :: nat

text \<open>
  \<open>createId()\<close> and \<open>Date.now()\<close> read the environment; every value they return is an
  argument of the function that calls them.
\<close>

definition createAssistantMessage :: "jsstring \<Rightarrow> int \<Rightarrow> Message" where
  "createAssistantMessage newId now =
     \<lparr>msg_id = newId, role = Assistant, content = [], msg_createdAt = now,
      liked = False, disliked = False, status = Thinking, version = 0\<rparr>"

definition createChat :: "jsstring \<Rightarrow> int \<Rightarrow> int \<Rightarrow> Chat" where
  "createChat newId now now' =
     \<lparr>chat_id = newId, title = DEFAULT_CHAT_TITLE, messages = [],
      chat_createdAt = now, updatedAt = now', isCustomTitle = False\<rparr>"

definition currentChat :: "Home \<Rightarrow> Chat option" where
  "currentChat s =
     (case find (\<lambda>chat. Some (chat_id chat) = activeChatId s) (chats s) of
        Some chat \<Rightarrow> Some chat
      | None \<Rightarrow> (case chats s of [] \<Rightarrow> None | chat # _ \<Rightarrow> Some chat))"

section \<open>Simulated replies\<close>

text \<open>The state update that the callback of a timeout performs.\<close>

definition resolveMessage :: "jsstring \<Rightarrow> Message \<Rightarrow> Message" where
  "resolveMessage messageId message =
     (if msg_id message = messageId
      then message\<lparr>content := ASSISTANT_REPLY, status := Done, version := version message + 1\<rparr>
      else message)"

definition resolveChats :: "jsstring \<Rightarrow> jsstring \<Rightarrow> int \<Rightarrow> Chat list \<Rightarrow> Chat list" where
  "resolveChats chatId messageId now prev =
     map (\<lambda>chat. if chat_id chat \<noteq> chatId then chat
                 else chat\<lparr>messages := map (resolveMessage messageId) (messages chat),
                           updatedAt := now\<rparr>) prev"

definition startAssistantResponse :: "jsstring \<Rightarrow> jsstring \<Rightarrow> Home \<Rightarrow> Home" where
  "startAssistantResponse chatId messageId s =
     (let timer = nextHandle s in
      s\<lparr>timersRef := AList.update messageId timer (timersRef s),
        scheduled := scheduled s @
          [\<lparr>handle = timer, timer_chatId = chatId, timer_messageId = messageId\<rparr>],
        nextHandle := Suc timer\<rparr>)"

text \<open>
  The timeout with handle \<open>h\<close> fires at time \<open>now\<close>: its callback rewrites the chats and
  deletes the entry of its message id from \<open>timersRef\<close>. The delays are random, so the
  timeouts that are scheduled may fire in any order.
\<close>

definition timerFires :: "nat \<Rightarrow> int \<Rightarrow> Home \<Rightarrow> Home" where
  "timerFires h now s =
     (case find (\<lambda>t. handle t = h) (scheduled s) of
        None \<Rightarrow> s
      | Some t \<Rightarrow>
          s\<lparr>chats := resolveChats (timer_chatId t) (timer_messageId t) now (chats s),
            timersRef := AList.delete (timer_messageId t) (timersRef s),
            scheduled := filter (\<lambda>t'. handle t' \<noteq> h) (scheduled s)\<rparr>)"

section \<open>Handlers\<close>

definition appendMessages :: "Message \<Rightarrow> Message \<Rightarrow> int \<Rightarrow> Chat \<Rightarrow> Chat" where
  "appendMessages userMessage assistantMessage now chat =
     (let nextMessages = messages chat @ [userMessage, assistantMessage];
          title' =
            (if \<not> isCustomTitle chat
             then (case find (\<lambda>msg. role msg = User) nextMessages of
                     Some firstUser \<Rightarrow> buildTitleFromMessage (content firstUser)
                   | None \<Rightarrow> title chat)
             else title chat)
      in chat\<lparr>title := title', messages := nextMessages, updatedAt := now\<rparr>)"

definition handleSubmit :: "jsstring \<times> int \<Rightarrow> jsstring \<times> int \<Rightarrow> int \<Rightarrow> Home \<Rightarrow> Home" where
  "handleSubmit userFresh assistantFresh now s =
     (case currentChat s of
        None \<Rightarrow> s
      | Some cur \<Rightarrow>
          if trim (input s) = [] then s
          else
            let trimmed = trim (input s);
                userMessage =
                  \<lparr>msg_id = fst userFresh, role = User, content = trimmed,
                   msg_createdAt = snd userFresh, liked = False, disliked = False,
                   status = Done, version = 0\<rparr>;
                assistantMessage = createAssistantMessage (fst assistantFresh) (snd assistantFresh)
            in startAssistantResponse (chat_id cur) (msg_id assistantMessage)
                 (s\<lparr>chats := map (\<lambda>chat. if chat_id chat \<noteq> chat_id cur then chat
                                        else appendMessages userMessage assistantMessage now chat)
                                (chats s),
                    input := []\<rparr>))"

definition handleNewChat :: "jsstring \<Rightarrow> int \<Rightarrow> int \<Rightarrow> Home \<Rightarrow> Home" where
  "handleNewChat newId now now' s =
     (let newChat = createChat newId now now' in
      s\<lparr>chats := newChat # chats s,
        activeChatId := Some (chat_id newChat),
        input := [],
        mobileSidebarOpen := (if isMobile s then False else mobileSidebarOpen s)\<rparr>)"

definition handleSelectChat :: "jsstring \<Rightarrow> Home \<Rightarrow> Home" where
  "handleSelectChat chatId s =
     s\<lparr>activeChatId := Some chatId,
       mobileSidebarOpen := (if isMobile s then False else mobileSidebarOpen s)\<rparr>"

definition startRename :: "Chat \<Rightarrow> Home \<Rightarrow> Home" where
  "startRename chat s =
     s\<lparr>sidebarCollapsed := (if sidebarCollapsed s \<and> \<not> isMobile s then False else sidebarCollapsed s),
       editingChatId := Some (chat_id chat),
       renameValue := title chat\<rparr>"

definition setRenameValue :: "jsstring \<Rightarrow> Home \<Rightarrow> Home" where
  "setRenameValue v s = s\<lparr>renameValue := v\<rparr>"

text \<open>
  \<open>!editingChatId\<close> holds when no chat is being renamed and also when the identifier being
  edited is the empty string.
\<close>

definition commitRename :: "jsstring \<Rightarrow> Home \<Rightarrow> Home" where
  "commitRename chatId s =
     (case editingChatId s of
        None \<Rightarrow> s
      | Some editing \<Rightarrow>
          if editing = [] \<or> editing \<noteq> chatId then s
          else
            let nextTitle = (if trim (renameValue s) = [] then DEFAULT_CHAT_TITLE
                             else trim (renameValue s))
            in s\<lparr>chats := map (\<lambda>chat. if chat_id chat = editing
                                      then chat\<lparr>title := nextTitle, isCustomTitle := True\<rparr>
                                      else chat) (chats s),
                 editingChatId := None,
                 renameValue := []\<rparr>)"

definition cancelRename :: "Home \<Rightarrow> Home" where
  "cancelRename s = s\<lparr>editingChatId := None, renameValue := []\<rparr>"

definition reactMessage :: "jsstring \<Rightarrow> Reaction \<Rightarrow> Message \<Rightarrow> Message" where
  "reactMessage messageId type message =
     (if msg_id message \<noteq> messageId \<or> role message \<noteq> Assistant then message
      else if type = Like
      then (let liked' = \<not> liked message in
            message\<lparr>liked := liked', disliked := (if liked' then False else disliked message)\<rparr>)
      else (let disliked' = \<not> disliked message in
            message\<lparr>disliked := disliked', liked := (if disliked' then False else liked message)\<rparr>))"

definition toggleReaction :: "jsstring \<Rightarrow> Reaction \<Rightarrow> Home \<Rightarrow> Home" where
  "toggleReaction messageId type s =
     (case currentChat s of
        None \<Rightarrow> s
      | Some cur \<Rightarrow>
          s\<lparr>chats := map (\<lambda>chat. if chat_id chat \<noteq> chat_id cur then chat
                                 else chat\<lparr>messages := map (reactMessage messageId type) (messages chat)\<rparr>)
                         (chats s)\<rparr>)"

definition regenerateMessage :: "jsstring \<Rightarrow> Message \<Rightarrow> Message" where
  "regenerateMessage messageId message =
     (if msg_id message = messageId
      then message\<lparr>content := [], status := Thinking, liked := False, disliked := False,
                   version := version message + 1\<rparr>
      else message)"

definition handleRegenerate :: "jsstring \<Rightarrow> Home \<Rightarrow> Home" where
  "handleRegenerate messageId s =
     (case currentChat s of
        None \<Rightarrow> s
      | Some cur \<Rightarrow>
          startAssistantResponse (chat_id cur) messageId
            (s\<lparr>chats := map (\<lambda>chat. if chat_id chat \<noteq> chat_id cur then chat
                                   else chat\<lparr>messages := map (regenerateMessage messageId) (messages chat)\<rparr>)
                           (chats s)\<rparr>))"

definition setInput :: "jsstring \<Rightarrow> Home \<Rightarrow> Home" where
  "setInput v s = s\<lparr>input := v\<rparr>"

text \<open>
  The rename of a chat as the sidebar performs it: the pencil of the chat starts the rename,
  the text field takes the proposed title, and Enter (or leaving the field) commits it.
\<close>

definition renameConversation :: "Chat \<Rightarrow> jsstring \<Rightarrow> Home \<Rightarrow> Home" where
  "renameConversation chat proposedTitle s =
     commitRename (chat_id chat) (setRenameValue proposedTitle (startRename chat s))"

text \<open>The component before anything is loaded: no chat, nothing typed, no timeout.\<close>

definition emptyStore :: Home where
  "emptyStore =
     \<lparr>chats = [], activeChatId = None, input = [], sidebarCollapsed = False,
      mobileSidebarOpen = False, isMobile = False, editingChatId = None, renameValue = [],
      timersRef = [], scheduled = [], nextHandle = 0\<rparr>"

section \<open>Facts about the handlers\<close>

lemma currentChat_in_chats: "currentChat s = Some cur \<Longrightarrow> cur \<in> set (chats s)"
  by (auto simp: currentChat_def find_Some_iff split: option.splits list.splits)

lemma chats_startAssistantResponse: "chats (startAssistantResponse chatId messageId s) = chats s"
  by (simp add: startAssistantResponse_def Let_def)

lemma handleSubmit_noop:
  "currentChat s = None \<or> trim (input s) = [] \<Longrightarrow> handleSubmit u a now s = s"
  by (auto simp: handleSubmit_def split: option.splits)

lemma handleSubmit_chats:
  assumes "currentChat s = Some cur" and "trim (input s) \<noteq> []"
  shows "chats (handleSubmit u a now s) =
           map (\<lambda>chat. if chat_id chat \<noteq> chat_id cur then chat
                       else appendMessages
                              \<lparr>msg_id = fst u, role = User, content = trim (input s),
                               msg_createdAt = snd u, liked = False, disliked = False,
                               status = Done, version = 0\<rparr>
                              (createAssistantMessage (fst a) (snd a)) now chat) (chats s)"
  using assms by (simp add: handleSubmit_def Let_def chats_startAssistantResponse)

lemma toggleReaction_chats:
  assumes "currentChat s = Some cur"
  shows "chats (toggleReaction messageId type s) =
           map (\<lambda>chat. if chat_id chat \<noteq> chat_id cur then chat
                       else chat\<lparr>messages := map (reactMessage messageId type) (messages chat)\<rparr>)
               (chats s)"
  using assms by (simp add: toggleReaction_def)


subsection \<open>What a reaction toggle keeps\<close>

text \<open>
  The identifiers and roles of all messages, chat by chat, and the selection: the part of
  the state that decides which chat is current and which messages a handler addresses.
\<close>

definition skeleton :: "Home \<Rightarrow> jsstring option \<times> (jsstring \<times> (jsstring \<times> Role) list) list" where
  "skeleton s =
     (activeChatId s,
      map (\<lambda>chat. (chat_id chat, map (\<lambda>m. (msg_id m, role m)) (messages chat))) (chats s))"

lemma find_map_option: "map_option f (find (\<lambda>x. P (f x)) xs) = find P (map f xs)"
  by (induction xs) auto

lemma currentChat_id:
  "map_option chat_id (currentChat s) =
     (case find (\<lambda>i. Some i = activeChatId s) (map chat_id (chats s)) of
        Some i \<Rightarrow> Some i
      | None \<Rightarrow> (case map chat_id (chats s) of [] \<Rightarrow> None | i # _ \<Rightarrow> Some i))"
proof -
  have "find (\<lambda>i. Some i = activeChatId s) (map chat_id (chats s)) =
          map_option chat_id (find (\<lambda>chat. Some (chat_id chat) = activeChatId s) (chats s))"
    by (rule find_map_option [symmetric])
  then show ?thesis
    by (simp add: currentChat_def split: option.splits list.splits)
qed

lemma skeleton_currentChat:
  assumes "skeleton s' = skeleton s"
  shows "map_option chat_id (currentChat s') = map_option chat_id (currentChat s)"
proof -
  have a: "activeChatId s' = activeChatId s" using assms by (simp add: skeleton_def)
  have "map fst (snd (skeleton s')) = map fst (snd (skeleton s))" using assms by simp
  then have eq: "map chat_id (chats s') = map chat_id (chats s)"
    by (simp add: skeleton_def comp_def)
  show ?thesis unfolding currentChat_id a eq by (rule refl)
qed

lemma skeleton_nth:
  assumes "skeleton s' = skeleton s" and "i < length (chats s)"
  shows "i < length (chats s')"
    and "chat_id (chats s' ! i) = chat_id (chats s ! i)"
    and "map (\<lambda>m. (msg_id m, role m)) (messages (chats s' ! i)) =
         map (\<lambda>m. (msg_id m, role m)) (messages (chats s ! i))"
proof -
  let ?f = "\<lambda>chat. (chat_id chat, map (\<lambda>m. (msg_id m, role m)) (messages chat))"
  have eq: "map ?f (chats s') = map ?f (chats s)" using assms(1) by (simp add: skeleton_def)
  then have len: "length (chats s') = length (chats s)" by (rule map_eq_imp_length_eq)
  then show "i < length (chats s')" using assms(2) by simp
  have "map ?f (chats s') ! i = map ?f (chats s) ! i" using eq by simp
  then have "?f (chats s' ! i) = ?f (chats s ! i)" using assms(2) len by simp
  then show "chat_id (chats s' ! i) = chat_id (chats s ! i)"
    and "map (\<lambda>m. (msg_id m, role m)) (messages (chats s' ! i)) =
         map (\<lambda>m. (msg_id m, role m)) (messages (chats s ! i))"
    by simp_all
qed

lemma skeleton_message:
  assumes "skeleton s' = skeleton s" and "i < length (chats s)"
    and "j < length (messages (chats s ! i))"
  shows "j < length (messages (chats s' ! i))"
    and "msg_id (messages (chats s' ! i) ! j) = msg_id (messages (chats s ! i) ! j)"
    and "role (messages (chats s' ! i) ! j) = role (messages (chats s ! i) ! j)"
proof -
  let ?g = "\<lambda>m. (msg_id m, role m)"
  have eq: "map ?g (messages (chats s' ! i)) = map ?g (messages (chats s ! i))"
    using assms(1,2) by (rule skeleton_nth(3))
  then have len: "length (messages (chats s' ! i)) = length (messages (chats s ! i))"
    by (rule map_eq_imp_length_eq)
  then show "j < length (messages (chats s' ! i))" using assms(3) by simp
  have "map ?g (messages (chats s' ! i)) ! j = map ?g (messages (chats s ! i)) ! j"
    using eq by simp
  then have "?g (messages (chats s' ! i) ! j) = ?g (messages (chats s ! i) ! j)"
    using assms(3) len by simp
  then show "msg_id (messages (chats s' ! i) ! j) = msg_id (messages (chats s ! i) ! j)"
    and "role (messages (chats s' ! i) ! j) = role (messages (chats s ! i) ! j)"
    by simp_all
qed

lemma reactMessage_keeps: "msg_id (reactMessage mid k m) = msg_id m" "role (reactMessage mid k m) = role m"
  by (simp_all add: reactMessage_def Let_def)

lemma skeleton_toggleReaction: "skeleton (toggleReaction mid k s) = skeleton s"
proof (cases "currentChat s")
  case None
  then show ?thesis by (simp add: toggleReaction_def)
next
  case (Some cur)
  have "activeChatId (toggleReaction mid k s) = activeChatId s"
    using Some by (simp add: toggleReaction_def)
  then show ?thesis
    by (simp add: skeleton_def toggleReaction_chats [OF Some] comp_def reactMessage_keeps)
qed

lemma skeleton_toggles:
  "skeleton (foldl (\<lambda>s k. toggleReaction mid k s) s ks) = skeleton s"
  by (induction ks arbitrary: s) (simp_all add: skeleton_toggleReaction)

lemma reactMessage_target:
  assumes "msg_id m = mid" and "role m = Assistant"
  shows "liked (reactMessage mid Like m) = (\<not> liked m)"
    and "disliked (reactMessage mid Like m) = (liked m \<and> disliked m)"
    and "disliked (reactMessage mid Dislike m) = (\<not> disliked m)"
    and "liked (reactMessage mid Dislike m) = (disliked m \<and> liked m)"
    and "\<not> (liked (reactMessage mid k m) \<and> disliked (reactMessage mid k m))"
  using assms by (cases k; simp add: reactMessage_def Let_def)+

lemma toggleReaction_target:
  assumes "currentChat s = Some cur" and "i < length (chats s)"
    and "chat_id (chats s ! i) = chat_id cur" and "j < length (messages (chats s ! i))"
  shows "messages (chats (toggleReaction mid k s) ! i) ! j =
           reactMessage mid k (messages (chats s ! i) ! j)"
  using assms by (simp add: toggleReaction_chats)

subsection \<open>A small run of the page\<close>

text \<open>
  One new chat, the text \<open>hi\<close> sent in it, and then the state after the reply has arrived.
\<close>

definition exampleSent :: Home where
  "exampleSent =
     handleSubmit (ascii ''u1'', 5) (ascii ''a1'', 6) 7
       (setInput (ascii '' hi '') (handleNewChat (ascii ''c1'') 1 2 emptyStore))"

definition exampleReplied :: Home where
  "exampleReplied = timerFires 0 9 exampleSent"

lemma exampleSent_value:
  "exampleSent =
     \<lparr>chats =
        [\<lparr>chat_id = ascii ''c1'', title = ascii ''hi'',
          messages =
            [\<lparr>msg_id = ascii ''u1'', role = User, content = ascii ''hi'', msg_createdAt = 5,
              liked = False, disliked = False, status = Done, version = 0\<rparr>,
             \<lparr>msg_id = ascii ''a1'', role = Assistant, content = [], msg_createdAt = 6,
              liked = False, disliked = False, status = Thinking, version = 0\<rparr>],
          chat_createdAt = 1, updatedAt = 7, isCustomTitle = False\<rparr>],
      activeChatId = Some (ascii ''c1''), input = [], sidebarCollapsed = False,
      mobileSidebarOpen = False, isMobile = False, editingChatId = None, renameValue = [],
      timersRef = [(ascii ''a1'', 0)],
      scheduled = [\<lparr>handle = 0, timer_chatId = ascii ''c1'', timer_messageId = ascii ''a1''\<rparr>],
      nextHandle = Suc 0\<rparr>"
  by (simp add: exampleSent_def handleSubmit_def setInput_def handleNewChat_def emptyStore_def
        createChat_def currentChat_def createAssistantMessage_def startAssistantResponse_def
        appendMessages_def buildTitleFromMessage_def split_ws.simps trim_def isWhiteSpace_def
        ascii_def Let_def)

lemma exampleReplied_value:
  "exampleReplied =
     \<lparr>chats =
        [\<lparr>chat_id = ascii ''c1'', title = ascii ''hi'',
          messages =
            [\<lparr>msg_id = ascii ''u1'', role = User, content = ascii ''hi'', msg_createdAt = 5,
              liked = False, disliked = False, status = Done, version = 0\<rparr>,
             \<lparr>msg_id = ascii ''a1'', role = Assistant, content = ASSISTANT_REPLY,
              msg_createdAt = 6, liked = False, disliked = False, status = Done, version = 1\<rparr>],
          chat_createdAt = 1, updatedAt = 9, isCustomTitle = False\<rparr>],
      activeChatId = Some (ascii ''c1''), input = [], sidebarCollapsed = False,
      mobileSidebarOpen = False, isMobile = False, editingChatId = None, renameValue = [],
      timersRef = [], scheduled = [], nextHandle = Suc 0\<rparr>"
  by (simp add: exampleReplied_def exampleSent_value timerFires_def resolveChats_def
        resolveMessage_def ascii_def)

subsection \<open>Firing a timeout\<close>


lemma timerFires_chats:
  assumes "find (\<lambda>t. handle t = h) (scheduled s) = Some t"
  shows "chats (timerFires h now s) =
           resolveChats (timer_chatId t) (timer_messageId t) now (chats s)"
  using assms by (simp add: timerFires_def)





subsection \<open>The scenario of the first message\<close>

text \<open>
  From the empty store: a new chat is created, the text \<open>hello world\<close> with blanks around it
  is typed and sent, and later the timeout of the reply fires. The identifiers and the
  clock readings are arbitrary.
\<close>

definition scenarioSent :: "jsstring \<Rightarrow> int \<Rightarrow> int \<Rightarrow> jsstring \<times> int \<Rightarrow> jsstring \<times> int \<Rightarrow> int \<Rightarrow> Home" where
  "scenarioSent chatId t0 t1 u a now =
     handleSubmit u a now
       (setInput (ascii ''  hello world  '') (handleNewChat chatId t0 t1 emptyStore))"

definition scenarioReplied :: "jsstring \<Rightarrow> int \<Rightarrow> int \<Rightarrow> jsstring \<times> int \<Rightarrow> jsstring \<times> int \<Rightarrow> int \<Rightarrow> int \<Rightarrow> Home" where
  "scenarioReplied chatId t0 t1 u a now later = timerFires 0 later (scenarioSent chatId t0 t1 u a now)"

lemma trim_hello_world: "trim (ascii ''  hello world  '') = ascii ''hello world''"
  by (simp add: trim_def isWhiteSpace_def ascii_def)

lemma title_hello_world: "buildTitleFromMessage (ascii ''hello world'') = ascii ''hello world''"
  by (simp add: buildTitleFromMessage_def split_ws.simps trim_def isWhiteSpace_def ascii_def
        Let_def)

lemma hello_world_not_empty: "ascii ''hello world'' \<noteq> []"
  by (simp add: ascii_def)

lemma scenarioSent_value:
  "scenarioSent chatId t0 t1 u a now =
     \<lparr>chats =
        [\<lparr>chat_id = chatId, title = ascii ''hello world'',
          messages =
            [\<lparr>msg_id = fst u, role = User, content = ascii ''hello world'',
              msg_createdAt = snd u, liked = False, disliked = False, status = Done,
              version = 0\<rparr>,
             \<lparr>msg_id = fst a, role = Assistant, content = [], msg_createdAt = snd a,
              liked = False, disliked = False, status = Thinking, version = 0\<rparr>],
          chat_createdAt = t0, updatedAt = now, isCustomTitle = False\<rparr>],
      activeChatId = Some chatId, input = [], sidebarCollapsed = False,
      mobileSidebarOpen = False, isMobile = False, editingChatId = None, renameValue = [],
      timersRef = [(fst a, 0)],
      scheduled = [\<lparr>handle = 0, timer_chatId = chatId, timer_messageId = fst a\<rparr>],
      nextHandle = Suc 0\<rparr>"
  by (simp add: scenarioSent_def handleSubmit_def setInput_def handleNewChat_def emptyStore_def
        createChat_def currentChat_def createAssistantMessage_def startAssistantResponse_def
        appendMessages_def trim_hello_world title_hello_world hello_world_not_empty Let_def)

section \<open>Persisted chats\<close>

text \<open>
  What \<open>JSON.parse\<close> returns: the chats read from local storage are used as they come,
  under an unchecked cast to the type of chats, so the model keeps them as JSON values. An
  object is the list of its properties, each key once.
\<close>

datatype json =
    JNull
  | JBool bool
  | JNum rat
  | JStr jsstring
  | JArr "json list"
  | JObj "(jsstring \<times> json) list"

function decimal :: "nat \<Rightarrow> jsstring" where
  "decimal n = (if n < 10 then [of_nat (48 + n)]
                else decimal (n div 10) @ [of_nat (48 + n mod 10)])"
  by pat_completeness auto
termination
  by (relation "measure id") auto

declare decimal.simps [simp del]

text \<open>
  The own enumerable properties of a value, which a spread \<open>{...v}\<close> copies: those of an
  object, the elements of an array and the characters of a string under their indices,
  none for a number, a boolean or \<open>null\<close>.
\<close>

fun ownProps :: "json \<Rightarrow> (jsstring \<times> json) list" where
  "ownProps (JObj kvs) = kvs"
| "ownProps (JArr xs) = zip (map decimal [0..<length xs]) xs"
| "ownProps (JStr str) = zip (map decimal [0..<length str]) (map (\<lambda>c. JStr [c]) str)"
| "ownProps v = []"

text \<open>
  Reading the property \<open>k\<close> of a value that is not \<open>null\<close>, for the keys that the page
  reads (none of them is a member that arrays or strings have of their own): \<open>None\<close> is
  \<open>undefined\<close>. On \<open>null\<close> the read throws a TypeError, which the callers check first.
\<close>

definition getProp :: "json \<Rightarrow> jsstring \<Rightarrow> json option" where
  "getProp v k = map_of (ownProps v) k"

text \<open>\<open>x ?? d\<close>: the default replaces \<open>undefined\<close> and \<open>null\<close>, and nothing else.\<close>

definition nullish :: "json option \<Rightarrow> json \<Rightarrow> json" where
  "nullish x d = (case x of None \<Rightarrow> d | Some JNull \<Rightarrow> d | Some v \<Rightarrow> v)"

text \<open>
  The two callbacks of \<open>loadChats\<close>; \<open>None\<close> is a TypeError thrown on the way (a chat or a
  message that is \<open>null\<close>, messages that are not an array).
\<close>

definition hydrateMessage :: "json \<Rightarrow> json option" where
  "hydrateMessage message =
     (if message = JNull then None
      else Some (JObj
        (AList.update (ascii ''version'') (nullish (getProp message (ascii ''version'')) (JNum 0))
        (AList.update (ascii ''status'')
           (nullish (getProp message (ascii ''status'')) (JStr (ascii ''done'')))
        (AList.update (ascii ''disliked'')
           (nullish (getProp message (ascii ''disliked'')) (JBool False))
        (AList.update (ascii ''liked'') (nullish (getProp message (ascii ''liked'')) (JBool False))
           (ownProps message)))))))"

definition hydrateChat :: "json \<Rightarrow> json option" where
  "hydrateChat chat =
     (if chat = JNull then None
      else case getProp chat (ascii ''messages'') of
        Some (JArr ms) \<Rightarrow>
          (case those (map hydrateMessage ms) of
             None \<Rightarrow> None
           | Some ms' \<Rightarrow>
               Some (JObj
                 (AList.update (ascii ''messages'') (JArr ms')
                 (AList.update (ascii ''isCustomTitle'')
                    (nullish (getProp chat (ascii ''isCustomTitle'')) (JBool False))
                    (ownProps chat)))))
      | _ \<Rightarrow> None)"

text \<open>A message and a chat of the page as the objects they are.\<close>

definition messageJson :: "Message \<Rightarrow> json" where
  "messageJson m =
     JObj [(ascii ''id'', JStr (msg_id m)),
           (ascii ''role'', JStr (case role m of User \<Rightarrow> ascii ''user'' | Assistant \<Rightarrow> ascii ''assistant'')),
           (ascii ''content'', JStr (content m)),
           (ascii ''createdAt'', JNum (of_int (msg_createdAt m))),
           (ascii ''liked'', JBool (liked m)),
           (ascii ''disliked'', JBool (disliked m)),
           (ascii ''status'', JStr (case status m of Thinking \<Rightarrow> ascii ''thinking'' | Done \<Rightarrow> ascii ''done'')),
           (ascii ''version'', JNum (of_int (version m)))]"

definition chatJson :: "Chat \<Rightarrow> json" where
  "chatJson c =
     JObj [(ascii ''id'', JStr (chat_id c)),
           (ascii ''title'', JStr (title c)),
           (ascii ''messages'', JArr (map messageJson (messages c))),
           (ascii ''createdAt'', JNum (of_int (chat_createdAt c))),
           (ascii ''updatedAt'', JNum (of_int (updatedAt c))),
           (ascii ''isCustomTitle'', JBool (isCustomTitle c))]"

text \<open>
  What \<open>loadChats\<close> finds: no \<open>window\<close> at all (rendering on the server), or the item
  stored under the key of the chats, if any.
\<close>

datatype storage = NoWindow | Item "jsstring option"

text \<open>
  \<open>JSON.parse\<close> belongs to the browser and is an argument: \<open>None\<close> is a SyntaxError. The
  \<open>catch\<close> of \<open>loadChats\<close> turns every exception into the default list.
\<close>

definition loadChats :: "(jsstring \<Rightarrow> json option) \<Rightarrow> jsstring \<Rightarrow> int \<Rightarrow> int \<Rightarrow> storage \<Rightarrow> json list" where
  "loadChats parse newId now now' st =
     (case st of
        NoWindow \<Rightarrow> [chatJson (createChat newId now now')]
      | Item None \<Rightarrow> [chatJson (createChat newId now now')]
      | Item (Some saved) \<Rightarrow>
          if saved = [] then [chatJson (createChat newId now now')]
          else
            (case parse saved of
               None \<Rightarrow> [chatJson (createChat newId now now')]
             | Some (JArr parsed) \<Rightarrow>
                 if parsed = [] then [chatJson (createChat newId now now')]
                 else (case those (map hydrateChat parsed) of
                         None \<Rightarrow> [chatJson (createChat newId now now')]
                       | Some loaded \<Rightarrow> loaded)
             | Some _ \<Rightarrow> [chatJson (createChat newId now now')]))"

text \<open>
  The shape a persisted chat must have for the load to go through: an object, or any other
  value but \<open>null\<close>, whose \<open>messages\<close> are an array without \<open>null\<close>.
\<close>

definition loadable :: "json \<Rightarrow> bool" where
  "loadable chat \<longleftrightarrow>
     chat \<noteq> JNull \<and>
     (case getProp chat (ascii ''messages'') of
        Some (JArr ms) \<Rightarrow> JNull \<notin> set ms
      | _ \<Rightarrow> False)"

subsection \<open>Facts about the load\<close>

lemma those_Some_iff: "those xs = Some ys \<longleftrightarrow> xs = map Some ys"
  by (induction xs arbitrary: ys) (auto split: option.splits)

lemma those_None_iff: "those xs = None \<longleftrightarrow> None \<in> set xs"
  by (induction xs) (auto split: option.splits)

lemma those_map_nth:
  assumes "those (map f xs) = Some ys"
  shows "length ys = length xs" and "i < length xs \<Longrightarrow> f (xs ! i) = Some (ys ! i)"
proof -
  have eq: "map f xs = map Some ys" using assms by (simp add: those_Some_iff)
  then show len: "length ys = length xs" by (metis length_map)
  show "f (xs ! i) = Some (ys ! i)" if "i < length xs"
  proof -
    have "map f xs ! i = map Some ys ! i" using eq by simp
    then show ?thesis using that len by simp
  qed
qed

lemma hydrateMessage_None: "hydrateMessage m = None \<longleftrightarrow> m = JNull"
  by (simp add: hydrateMessage_def)

lemma hydrateMessages_None: "those (map hydrateMessage ms) = None \<longleftrightarrow> JNull \<in> set ms"
proof -
  have "those (map hydrateMessage ms) = None \<longleftrightarrow> (\<exists>m \<in> set ms. hydrateMessage m = None)"
    unfolding those_None_iff by (metis (no_types, lifting) image_iff list.set_map)
  then show ?thesis by (simp add: hydrateMessage_None)
qed

lemma hydrateChat_None: "hydrateChat chat = None \<longleftrightarrow> \<not> loadable chat"
proof (cases "chat = JNull")
  case True
  then show ?thesis by (simp add: hydrateChat_def loadable_def)
next
  case False
  show ?thesis
  proof (cases "\<exists>ms. getProp chat (ascii ''messages'') = Some (JArr ms)")
    case True
    then obtain ms where ms: "getProp chat (ascii ''messages'') = Some (JArr ms)" by blast
    have "hydrateChat chat = None \<longleftrightarrow> those (map hydrateMessage ms) = None"
      using False ms by (simp add: hydrateChat_def split: option.splits)
    then show ?thesis using False ms by (simp add: loadable_def hydrateMessages_None)
  next
    case no: False
    then have "hydrateChat chat = None"
      by (simp add: hydrateChat_def split: option.splits json.splits)
    moreover have "\<not> loadable chat"
      using no by (simp add: loadable_def split: option.splits json.splits)
    ultimately show ?thesis by simp
  qed
qed

lemma hydrateChats_None: "those (map hydrateChat cs) = None \<longleftrightarrow> \<not> list_all loadable cs"
proof -
  have "those (map hydrateChat cs) = None \<longleftrightarrow> (\<exists>c \<in> set cs. hydrateChat c = None)"
    unfolding those_None_iff by (metis (no_types, lifting) image_iff list.set_map)
  then show ?thesis by (simp add: hydrateChat_None list_all_iff)
qed

lemma message_keys_differ:
  "ascii ''liked'' \<noteq> ascii ''disliked''" "ascii ''liked'' \<noteq> ascii ''status''"
  "ascii ''liked'' \<noteq> ascii ''version''" "ascii ''disliked'' \<noteq> ascii ''status''"
  "ascii ''disliked'' \<noteq> ascii ''version''" "ascii ''status'' \<noteq> ascii ''version''"
  "ascii ''isCustomTitle'' \<noteq> ascii ''messages''"
  by (simp_all add: ascii_def)

lemma getProp_hydrateMessage:
  assumes "hydrateMessage m = Some m'"
  shows "getProp m' (ascii ''liked'') = Some (nullish (getProp m (ascii ''liked'')) (JBool False))"
    and "getProp m' (ascii ''disliked'') = Some (nullish (getProp m (ascii ''disliked'')) (JBool False))"
    and "getProp m' (ascii ''status'') = Some (nullish (getProp m (ascii ''status'')) (JStr (ascii ''done'')))"
    and "getProp m' (ascii ''version'') = Some (nullish (getProp m (ascii ''version'')) (JNum 0))"
    and "k \<noteq> ascii ''liked'' \<Longrightarrow> k \<noteq> ascii ''disliked'' \<Longrightarrow> k \<noteq> ascii ''status'' \<Longrightarrow>
         k \<noteq> ascii ''version'' \<Longrightarrow> getProp m' k = getProp m k"
proof -
  have m': "m' = JObj
        (AList.update (ascii ''version'') (nullish (getProp m (ascii ''version'')) (JNum 0))
        (AList.update (ascii ''status'')
           (nullish (getProp m (ascii ''status'')) (JStr (ascii ''done'')))
        (AList.update (ascii ''disliked'')
           (nullish (getProp m (ascii ''disliked'')) (JBool False))
        (AList.update (ascii ''liked'') (nullish (getProp m (ascii ''liked'')) (JBool False))
           (ownProps m)))))"
    using assms by (simp add: hydrateMessage_def split: if_splits)
  show "getProp m' (ascii ''liked'') = Some (nullish (getProp m (ascii ''liked'')) (JBool False))"
    and "getProp m' (ascii ''disliked'') = Some (nullish (getProp m (ascii ''disliked'')) (JBool False))"
    and "getProp m' (ascii ''status'') = Some (nullish (getProp m (ascii ''status'')) (JStr (ascii ''done'')))"
    and "getProp m' (ascii ''version'') = Some (nullish (getProp m (ascii ''version'')) (JNum 0))"
    unfolding m' getProp_def ownProps.simps update_conv'
    by (simp_all add: message_keys_differ)
  show "getProp m' k = getProp m k"
    if "k \<noteq> ascii ''liked''" "k \<noteq> ascii ''disliked''" "k \<noteq> ascii ''status''"
       "k \<noteq> ascii ''version''"
    unfolding m' getProp_def ownProps.simps update_conv' using that by simp
qed

lemma getProp_hydrateChat:
  assumes "hydrateChat chat = Some chat'"
  shows "\<exists>ms ms'. getProp chat (ascii ''messages'') = Some (JArr ms) \<and>
    those (map hydrateMessage ms) = Some ms' \<and>
    getProp chat' (ascii ''messages'') = Some (JArr ms') \<and>
    getProp chat' (ascii ''isCustomTitle'') =
           Some (nullish (getProp chat (ascii ''isCustomTitle'')) (JBool False)) \<and>
    (\<forall>k. k \<noteq> ascii ''isCustomTitle'' \<and> k \<noteq> ascii ''messages'' \<longrightarrow>
           getProp chat' k = getProp chat k)"
proof -
  from assms obtain ms ms' where ms: "getProp chat (ascii ''messages'') = Some (JArr ms)"
    and ms': "those (map hydrateMessage ms) = Some ms'"
    and c': "chat' = JObj
                 (AList.update (ascii ''messages'') (JArr ms')
                 (AList.update (ascii ''isCustomTitle'')
                    (nullish (getProp chat (ascii ''isCustomTitle'')) (JBool False))
                    (ownProps chat)))"
    by (auto simp: hydrateChat_def split: if_splits option.splits json.splits)
  have a: "getProp chat' (ascii ''messages'') = Some (JArr ms')"
    unfolding c' getProp_def ownProps.simps update_conv' by simp
  have b: "getProp chat' (ascii ''isCustomTitle'') =
           Some (nullish (getProp chat (ascii ''isCustomTitle'')) (JBool False))"
    unfolding c' getProp_def ownProps.simps update_conv' by (simp add: message_keys_differ)
  have c: "getProp chat' k = getProp chat k"
    if "k \<noteq> ascii ''isCustomTitle''" "k \<noteq> ascii ''messages''" for k
    unfolding c' getProp_def ownProps.simps update_conv' using that by simp
  show ?thesis using ms ms' a b c by blast
qed

subsection \<open>A persisted list in the older shape\<close>

text \<open>
  One chat without \<open>isCustomTitle\<close>, holding one liked assistant message that has neither
  \<open>disliked\<close> nor \<open>status\<close> nor \<open>version\<close>.
\<close>

definition legacyChats :: json where
  "legacyChats =
     JArr [JObj [(ascii ''id'', JStr (ascii ''c1'')),
                 (ascii ''title'', JStr (ascii ''Old'')),
                 (ascii ''messages'',
                    JArr [JObj [(ascii ''id'', JStr (ascii ''m1'')),
                                (ascii ''role'', JStr (ascii ''assistant'')),
                                (ascii ''content'', JStr (ascii ''ok'')),
                                (ascii ''createdAt'', JNum 3),
                                (ascii ''liked'', JBool True)]]),
                 (ascii ''createdAt'', JNum 1),
                 (ascii ''updatedAt'', JNum 2)]]"

section \<open>Claims\<close>

text \<open>
  Claim C4. The title derived from a text is computed from the tokens of the text, that is
  the pieces of the trimmed text between runs of white space with the empty pieces
  discarded: a text whose trim is empty gives the placeholder title; otherwise at most three
  tokens give the tokens joined by single spaces, and more than three give the first three
  joined by single spaces and followed by the one-character ellipsis U+2026. The code splits
  without discarding anything; the theorem shows that no piece of a trimmed text is empty.
\<close>

theorem buildTitleFromMessage_tokens:
  "buildTitleFromMessage txt =
     (if trim txt = [] then DEFAULT_CHAT_TITLE
      else if length (splitTokens txt) \<le> 3 then join [0x20] (splitTokens txt)
      else join [0x20] (take 3 (splitTokens txt)) @ [0x2026])"
  by (simp add: buildTitleFromMessage_def Let_def splitTokens_trimmed ascii_def ELLIPSIS_def)

theorem buildTitleFromMessage_tokens_witness:
  "buildTitleFromMessage (ascii ''  one two   three four '') = ascii ''one two three'' @ [0x2026]
   \<and> splitTokens (ascii ''  one two   three four '') =
       [ascii ''one'', ascii ''two'', ascii ''three'', ascii ''four'']"
  using buildTitleFromMessage_tokens [of "ascii ''  one two   three four ''"]
  by (simp add: splitTokens_def trim_def ascii_def isWhiteSpace_def split_ws.simps)

text \<open>
  Claim C1. \<open>handleSubmit\<close> sends the text of the input field to the current chat. When
  there is a current chat and the trimmed text is not empty, the list of chats keeps its
  length, the current chat is one of its entries, every chat with the identifier of the
  current chat has its old messages followed by exactly two new ones (the user message, done,
  holding the trimmed text, then the assistant message, thinking, with empty content), and
  every other chat is untouched. When there is no current chat or the trimmed text is empty,
  the whole state is unchanged.
\<close>

theorem handleSubmit_appends_two:
  "(currentChat s = None \<or> trim (input s) = [] \<longrightarrow> handleSubmit u a now s = s) \<and>
   (\<forall>cur. currentChat s = Some cur \<and> trim (input s) \<noteq> [] \<longrightarrow>
      cur \<in> set (chats s) \<and>
      length (chats (handleSubmit u a now s)) = length (chats s) \<and>
      (\<forall>i < length (chats s).
         if chat_id (chats s ! i) = chat_id cur
         then messages (chats (handleSubmit u a now s) ! i) =
                messages (chats s ! i) @
                  [\<lparr>msg_id = fst u, role = User, content = trim (input s),
                    msg_createdAt = snd u, liked = False, disliked = False,
                    status = Done, version = 0\<rparr>,
                   \<lparr>msg_id = fst a, role = Assistant, content = [],
                    msg_createdAt = snd a, liked = False, disliked = False,
                    status = Thinking, version = 0\<rparr>]
         else chats (handleSubmit u a now s) ! i = chats s ! i))"
proof (intro conjI allI impI)
  assume "currentChat s = None \<or> trim (input s) = []"
  then show "handleSubmit u a now s = s" by (rule handleSubmit_noop)
next
  fix cur assume h: "currentChat s = Some cur \<and> trim (input s) \<noteq> []"
  then show "cur \<in> set (chats s)" by (simp add: currentChat_in_chats)
  from h show "length (chats (handleSubmit u a now s)) = length (chats s)"
    by (simp add: handleSubmit_chats)
  fix i assume "i < length (chats s)"
  with h show "if chat_id (chats s ! i) = chat_id cur
         then messages (chats (handleSubmit u a now s) ! i) =
                messages (chats s ! i) @
                  [\<lparr>msg_id = fst u, role = User, content = trim (input s),
                    msg_createdAt = snd u, liked = False, disliked = False,
                    status = Done, version = 0\<rparr>,
                   \<lparr>msg_id = fst a, role = Assistant, content = [],
                    msg_createdAt = snd a, liked = False, disliked = False,
                    status = Thinking, version = 0\<rparr>]
         else chats (handleSubmit u a now s) ! i = chats s ! i"
    by (simp add: handleSubmit_chats appendMessages_def createAssistantMessage_def Let_def)
qed

theorem handleSubmit_appends_two_witness:
  "messages (chats (handleSubmit (ascii ''u1'', 5) (ascii ''a1'', 6) 7
       (setInput (ascii '' hi '') (handleNewChat (ascii ''c1'') 1 2 emptyStore))) ! 0) =
     [\<lparr>msg_id = ascii ''u1'', role = User, content = ascii ''hi'', msg_createdAt = 5,
       liked = False, disliked = False, status = Done, version = 0\<rparr>,
      \<lparr>msg_id = ascii ''a1'', role = Assistant, content = [], msg_createdAt = 6,
       liked = False, disliked = False, status = Thinking, version = 0\<rparr>]
   \<and> handleSubmit (ascii ''u1'', 5) (ascii ''a1'', 6) 7
       (setInput (ascii ''  '') (handleNewChat (ascii ''c1'') 1 2 emptyStore)) =
      setInput (ascii ''  '') (handleNewChat (ascii ''c1'') 1 2 emptyStore)"
  using handleSubmit_appends_two
          [of "setInput (ascii '' hi '') (handleNewChat (ascii ''c1'') 1 2 emptyStore)"
              "(ascii ''u1'', 5)" "(ascii ''a1'', 6)" 7]
        handleSubmit_appends_two
          [of "setInput (ascii ''  '') (handleNewChat (ascii ''c1'') 1 2 emptyStore)"
              "(ascii ''u1'', 5)" "(ascii ''a1'', 6)" 7]
  by (simp add: setInput_def handleNewChat_def emptyStore_def createChat_def currentChat_def
        trim_def isWhiteSpace_def ascii_def Let_def)

text \<open>
  Claim C3. Take an assistant message of the current chat and toggle reactions on it. One
  toggle flips the flag it names; the other flag becomes false when the flipped flag is now
  true and is left alone when the flipped flag is now false (so toggling a flag that was true
  only clears it). After one toggle, and after every non-empty sequence of toggles, the
  message is not both liked and disliked.
\<close>

theorem toggleReaction_mutual_exclusion:
  assumes "currentChat s = Some cur"
    and "i < length (chats s)" and "chat_id (chats s ! i) = chat_id cur"
    and "j < length (messages (chats s ! i))"
    and "msg_id (messages (chats s ! i) ! j) = mid"
    and "role (messages (chats s ! i) ! j) = Assistant"
  shows "liked (messages (chats (toggleReaction mid Like s) ! i) ! j) =
           (\<not> liked (messages (chats s ! i) ! j)) \<and>
         disliked (messages (chats (toggleReaction mid Like s) ! i) ! j) =
           (\<not> liked (messages (chats (toggleReaction mid Like s) ! i) ! j) \<and>
            disliked (messages (chats s ! i) ! j)) \<and>
         disliked (messages (chats (toggleReaction mid Dislike s) ! i) ! j) =
           (\<not> disliked (messages (chats s ! i) ! j)) \<and>
         liked (messages (chats (toggleReaction mid Dislike s) ! i) ! j) =
           (\<not> disliked (messages (chats (toggleReaction mid Dislike s) ! i) ! j) \<and>
            liked (messages (chats s ! i) ! j)) \<and>
         (ks \<noteq> [] \<longrightarrow>
            \<not> (liked (messages (chats (foldl (\<lambda>s k. toggleReaction mid k s) s ks) ! i) ! j) \<and>
               disliked (messages (chats (foldl (\<lambda>s k. toggleReaction mid k s) s ks) ! i) ! j)))"
proof -
  let ?m = "messages (chats s ! i) ! j"
  have one: "messages (chats (toggleReaction mid k s) ! i) ! j = reactMessage mid k ?m" for k
    using assms(1-4) by (rule toggleReaction_target)
  have seq: "\<not> (liked (messages (chats (foldl (\<lambda>s k. toggleReaction mid k s) s ks) ! i) ! j) \<and>
               disliked (messages (chats (foldl (\<lambda>s k. toggleReaction mid k s) s ks) ! i) ! j))"
    if ne: "ks \<noteq> []"
  proof -
    obtain ks' k where ks: "ks = ks' @ [k]" using ne by (cases ks rule: rev_cases) auto
    let ?s1 = "foldl (\<lambda>s k. toggleReaction mid k s) s ks'"
    have sk: "skeleton ?s1 = skeleton s" by (rule skeleton_toggles)
    have "map_option chat_id (currentChat ?s1) = Some (chat_id cur)"
      by (simp only: skeleton_currentChat [OF sk] assms(1) option.map)
    then obtain cur1 where c1: "currentChat ?s1 = Some cur1" and id1: "chat_id cur1 = chat_id cur"
      by auto
    have i1: "i < length (chats ?s1)" using sk assms(2) by (rule skeleton_nth(1))
    have ci1: "chat_id (chats ?s1 ! i) = chat_id cur1"
      using skeleton_nth(2) [OF sk assms(2)] assms(3) id1 by simp
    have j1: "j < length (messages (chats ?s1 ! i))"
      using sk assms(2,4) by (rule skeleton_message(1))
    have m1: "msg_id (messages (chats ?s1 ! i) ! j) = mid"
      using skeleton_message(2) [OF sk assms(2,4)] assms(5) by simp
    have r1: "role (messages (chats ?s1 ! i) ! j) = Assistant"
      using skeleton_message(3) [OF sk assms(2,4)] assms(6) by simp
    have last: "messages (chats (toggleReaction mid k ?s1) ! i) ! j =
            reactMessage mid k (messages (chats ?s1 ! i) ! j)"
      using c1 i1 ci1 j1 by (rule toggleReaction_target)
    have "foldl (\<lambda>s k. toggleReaction mid k s) s ks = toggleReaction mid k ?s1"
      by (simp only: ks foldl_append foldl.simps)
    then show ?thesis using reactMessage_target(5) [OF m1 r1, of k] by (simp only: last) simp
  qed
  have l: "liked (messages (chats (toggleReaction mid Like s) ! i) ! j) = (\<not> liked ?m)"
    using reactMessage_target(1) [OF assms(5,6)] by (simp only: one)
  have ld: "disliked (messages (chats (toggleReaction mid Like s) ! i) ! j) =
              (\<not> liked (messages (chats (toggleReaction mid Like s) ! i) ! j) \<and> disliked ?m)"
    using reactMessage_target(1,2) [OF assms(5,6)] by (simp only: one) simp
  have d: "disliked (messages (chats (toggleReaction mid Dislike s) ! i) ! j) = (\<not> disliked ?m)"
    using reactMessage_target(3) [OF assms(5,6)] by (simp only: one)
  have dl: "liked (messages (chats (toggleReaction mid Dislike s) ! i) ! j) =
              (\<not> disliked (messages (chats (toggleReaction mid Dislike s) ! i) ! j) \<and> liked ?m)"
    using reactMessage_target(3,4) [OF assms(5,6)] by (simp only: one) simp
  show ?thesis by (intro conjI impI l ld d dl seq)
qed

theorem toggleReaction_mutual_exclusion_witness:
  "currentChat exampleReplied = Some (chats exampleReplied ! 0) \<and>
   role (messages (chats exampleReplied ! 0) ! 1) = Assistant \<and>
   liked (messages (chats (toggleReaction (ascii ''a1'') Like exampleReplied) ! 0) ! 1) \<and>
   \<not> disliked (messages (chats (toggleReaction (ascii ''a1'') Like exampleReplied) ! 0) ! 1) \<and>
   \<not> (liked (messages (chats (foldl (\<lambda>s k. toggleReaction (ascii ''a1'') k s) exampleReplied
                                  [Like, Dislike]) ! 0) ! 1) \<and>
      disliked (messages (chats (foldl (\<lambda>s k. toggleReaction (ascii ''a1'') k s) exampleReplied
                                  [Like, Dislike]) ! 0) ! 1))"
  using toggleReaction_mutual_exclusion
          [of exampleReplied "chats exampleReplied ! 0" 0 1 "ascii ''a1''" "[Like, Dislike]"]
  by (simp add: exampleReplied_value currentChat_def)





text \<open>
  Claim C10. Renaming a chat changes nothing but the title and the custom-title mark of the
  chats with the identifier of that chat: the list of chats keeps its length and order, every
  chat keeps its identifier, its messages and both of its timestamps, a chat with another
  identifier is unchanged altogether, and the selection of the active chat, the input, and
  the timeouts are unchanged. The same holds of \<open>commitRename\<close> alone.
\<close>

theorem renameConversation_frame:
  "length (chats (renameConversation c t s)) = length (chats s) \<and>
   length (chats (commitRename cid s)) = length (chats s) \<and>
   (\<forall>i < length (chats s).
      chat_id (chats (renameConversation c t s) ! i) = chat_id (chats s ! i) \<and>
      messages (chats (renameConversation c t s) ! i) = messages (chats s ! i) \<and>
      chat_createdAt (chats (renameConversation c t s) ! i) = chat_createdAt (chats s ! i) \<and>
      updatedAt (chats (renameConversation c t s) ! i) = updatedAt (chats s ! i) \<and>
      (chat_id (chats s ! i) \<noteq> chat_id c \<longrightarrow>
         chats (renameConversation c t s) ! i = chats s ! i) \<and>
      chat_id (chats (commitRename cid s) ! i) = chat_id (chats s ! i) \<and>
      messages (chats (commitRename cid s) ! i) = messages (chats s ! i) \<and>
      chat_createdAt (chats (commitRename cid s) ! i) = chat_createdAt (chats s ! i) \<and>
      updatedAt (chats (commitRename cid s) ! i) = updatedAt (chats s ! i) \<and>
      (chat_id (chats s ! i) \<noteq> cid \<longrightarrow> chats (commitRename cid s) ! i = chats s ! i)) \<and>
   activeChatId (renameConversation c t s) = activeChatId s \<and>
   activeChatId (commitRename cid s) = activeChatId s \<and>
   input (renameConversation c t s) = input s \<and>
   input (commitRename cid s) = input s \<and>
   scheduled (renameConversation c t s) = scheduled s \<and>
   scheduled (commitRename cid s) = scheduled s \<and>
   timersRef (renameConversation c t s) = timersRef s \<and>
   timersRef (commitRename cid s) = timersRef s"
  by (simp add: renameConversation_def commitRename_def setRenameValue_def startRename_def
        Let_def split: option.splits)

theorem renameConversation_frame_witness:
  "messages (chats (renameConversation (chats exampleReplied ! 0) (ascii ''Dad jokes'')
                     exampleReplied) ! 0) = messages (chats exampleReplied ! 0) \<and>
   updatedAt (chats (renameConversation (chats exampleReplied ! 0) (ascii ''Dad jokes'')
                     exampleReplied) ! 0) = 9 \<and>
   title (chats (renameConversation (chats exampleReplied ! 0) (ascii ''Dad jokes'')
                     exampleReplied) ! 0) \<noteq> title (chats exampleReplied ! 0) \<and>
   activeChatId (renameConversation (chats exampleReplied ! 0) (ascii ''Dad jokes'')
                     exampleReplied) = Some (ascii ''c1'')"
  using renameConversation_frame
          [of "chats exampleReplied ! 0" "ascii ''Dad jokes''" exampleReplied "ascii ''c1''"]
  by (simp add: exampleReplied_value renameConversation_def commitRename_def
        setRenameValue_def startRename_def trim_def isWhiteSpace_def ascii_def)

text \<open>
  Claim C7, as the code has it. Sending a message and the arrival of a scheduled reply set
  \<open>updatedAt\<close> of the chat they address to the time of the update. A reaction toggle and a
  regenerate rewrite messages and leave \<open>updatedAt\<close> of every chat as it was: neither reads
  the clock.
\<close>

theorem updatedAt_refreshed_by_send_and_reply_only:
  "(\<forall>cur. currentChat s = Some cur \<and> trim (input s) \<noteq> [] \<longrightarrow>
      (\<forall>i < length (chats s). chat_id (chats s ! i) = chat_id cur \<longrightarrow>
         updatedAt (chats (handleSubmit u a now s) ! i) = now)) \<and>
   (\<forall>t. find (\<lambda>t. handle t = h) (scheduled s) = Some t \<longrightarrow>
      (\<forall>i < length (chats s). chat_id (chats s ! i) = timer_chatId t \<longrightarrow>
         updatedAt (chats (timerFires h now s) ! i) = now)) \<and>
   map updatedAt (chats (toggleReaction mid k s)) = map updatedAt (chats s) \<and>
   map updatedAt (chats (handleRegenerate mid s)) = map updatedAt (chats s)"
proof (intro conjI allI impI)
  fix cur i
  assume "currentChat s = Some cur \<and> trim (input s) \<noteq> []" and "i < length (chats s)"
    and "chat_id (chats s ! i) = chat_id cur"
  then show "updatedAt (chats (handleSubmit u a now s) ! i) = now"
    by (simp add: handleSubmit_chats appendMessages_def Let_def)
next
  fix t i
  assume "find (\<lambda>t. handle t = h) (scheduled s) = Some t" and "i < length (chats s)"
    and "chat_id (chats s ! i) = timer_chatId t"
  then show "updatedAt (chats (timerFires h now s) ! i) = now"
    by (simp add: timerFires_chats resolveChats_def)
next
  show "map updatedAt (chats (toggleReaction mid k s)) = map updatedAt (chats s)"
    by (cases "currentChat s") (simp_all add: toggleReaction_def comp_def)
next
  show "map updatedAt (chats (handleRegenerate mid s)) = map updatedAt (chats s)"
    by (cases "currentChat s")
       (simp_all add: handleRegenerate_def chats_startAssistantResponse comp_def)
qed

theorem updatedAt_refreshed_by_send_and_reply_only_witness:
  "updatedAt (chats exampleSent ! 0) = 7 \<and>
   updatedAt (chats (timerFires 0 9 exampleSent) ! 0) = 9 \<and>
   map updatedAt (chats (toggleReaction (ascii ''a1'') Like exampleReplied)) = [9] \<and>
   map updatedAt (chats (handleRegenerate (ascii ''a1'') exampleReplied)) = [9]"
  using updatedAt_refreshed_by_send_and_reply_only
          [of "setInput (ascii '' hi '') (handleNewChat (ascii ''c1'') 1 2 emptyStore)"
              "(ascii ''u1'', 5)" "(ascii ''a1'', 6)" 7 0 "ascii ''a1''" Like]
        updatedAt_refreshed_by_send_and_reply_only
          [of exampleSent "(ascii ''u1'', 5)" "(ascii ''a1'', 6)" 9 0 "ascii ''a1''" Like]
        updatedAt_refreshed_by_send_and_reply_only
          [of exampleReplied "(ascii ''u1'', 5)" "(ascii ''a1'', 6)" 9 0 "ascii ''a1''" Like]
  by (simp add: exampleReplied_value exampleSent_value
        exampleSent_def [symmetric] setInput_def handleNewChat_def emptyStore_def
        createChat_def currentChat_def trim_def isWhiteSpace_def ascii_def Let_def)

text \<open>
  Against claim C7 as it was stated (every operation that changes the messages refreshes
  \<open>updatedAt\<close>): on the small run, a reaction toggle and a regenerate both change the
  messages of the chat, whose \<open>updatedAt\<close> stays at the time of the last reply.
\<close>

theorem reaction_and_regenerate_keep_updatedAt_example:
  "messages (chats (toggleReaction (ascii ''a1'') Like exampleReplied) ! 0) \<noteq>
     messages (chats exampleReplied ! 0) \<and>
   updatedAt (chats (toggleReaction (ascii ''a1'') Like exampleReplied) ! 0) =
     updatedAt (chats exampleReplied ! 0) \<and>
   messages (chats (handleRegenerate (ascii ''a1'') exampleReplied) ! 0) \<noteq>
     messages (chats exampleReplied ! 0) \<and>
   updatedAt (chats (handleRegenerate (ascii ''a1'') exampleReplied) ! 0) =
     updatedAt (chats exampleReplied ! 0)"
  by (simp add: exampleReplied_value toggleReaction_def handleRegenerate_def
        startAssistantResponse_def currentChat_def reactMessage_def regenerateMessage_def
        Let_def)

text \<open>
  Claim C8, as the code has it. In the scenario of the first message the title is derived in
  the very update that appends the two messages: right after the send the chat is titled
  \<open>hello world\<close> and holds the user message \<open>hello world\<close> and the thinking assistant
  message; there is no state with the two messages and the placeholder title. Once the
  timeout has fired, the assistant message holds the canned reply and is done, and the title
  is still \<open>hello world\<close>, without ellipsis.
\<close>

theorem scenario_first_message:
  "chats (handleNewChat chatId t0 t1 emptyStore) = [createChat chatId t0 t1] \<and>
   title (createChat chatId t0 t1) = ascii ''New chat'' \<and>
   chats (scenarioSent chatId t0 t1 u a now) =
     [\<lparr>chat_id = chatId, title = ascii ''hello world'',
       messages =
         [\<lparr>msg_id = fst u, role = User, content = ascii ''hello world'',
           msg_createdAt = snd u, liked = False, disliked = False, status = Done,
           version = 0\<rparr>,
          \<lparr>msg_id = fst a, role = Assistant, content = [], msg_createdAt = snd a,
           liked = False, disliked = False, status = Thinking, version = 0\<rparr>],
       chat_createdAt = t0, updatedAt = now, isCustomTitle = False\<rparr>] \<and>
   length (chats (scenarioReplied chatId t0 t1 u a now later)) = 1 \<and>
   title (chats (scenarioReplied chatId t0 t1 u a now later) ! 0) = ascii ''hello world'' \<and>
   length (messages (chats (scenarioReplied chatId t0 t1 u a now later) ! 0)) = 2 \<and>
   messages (chats (scenarioReplied chatId t0 t1 u a now later) ! 0) ! 1 =
     \<lparr>msg_id = fst a, role = Assistant, content = ascii ''ok '' @ [0xD83D, 0xDC4D],
      msg_createdAt = snd a, liked = False, disliked = False, status = Done, version = 1\<rparr> \<and>
   role (messages (chats (scenarioReplied chatId t0 t1 u a now later) ! 0) ! 0) = User \<and>
   (fst u \<noteq> fst a \<longrightarrow>
      content (messages (chats (scenarioReplied chatId t0 t1 u a now later) ! 0) ! 0) =
        ascii ''hello world'')"
  by (simp add: scenarioReplied_def scenarioSent_value timerFires_def resolveChats_def
        resolveMessage_def ASSISTANT_REPLY_def handleNewChat_def emptyStore_def createChat_def
        DEFAULT_CHAT_TITLE_def Let_def)

theorem scenario_first_message_witness:
  "content (messages (chats (scenarioReplied (ascii ''c1'') 1 2 (ascii ''u1'', 5)
                                (ascii ''a1'', 6) 7 9) ! 0) ! 0) = ascii ''hello world'' \<and>
   status (messages (chats (scenarioReplied (ascii ''c1'') 1 2 (ascii ''u1'', 5)
                                (ascii ''a1'', 6) 7 9) ! 0) ! 1) = Done \<and>
   title (chats (scenarioReplied (ascii ''c1'') 1 2 (ascii ''u1'', 5)
                                (ascii ''a1'', 6) 7 9) ! 0) = ascii ''hello world''"
  using scenario_first_message
          [of "ascii ''c1''" 1 2 "(ascii ''u1'', 5)" "(ascii ''a1'', 6)" 7 9]
  by (simp add: ascii_def)

text \<open>
  Against claim C8 as it was stated (right after the send the chat still has the placeholder
  title): for one choice of identifiers, the title right after the send is not the
  placeholder.
\<close>

theorem scenario_title_after_send_example:
  "title (chats (scenarioSent (ascii ''c1'') 1 2 (ascii ''u1'', 5) (ascii ''a1'', 6) 7) ! 0)
     \<noteq> DEFAULT_CHAT_TITLE"
  by (simp add: scenarioSent_value DEFAULT_CHAT_TITLE_def ascii_def)




text \<open>
  Claim C6. \<open>loadChats\<close> always returns a non-empty list of chats and never fails. It
  returns exactly one freshly created default chat when there is no window, no stored item
  or an empty one, when the item does not parse, when it parses to something that is not an
  array or to the empty array, and also when a persisted chat is \<open>null\<close> or lacks an array
  of messages without \<open>null\<close> (the TypeError is caught). Otherwise it returns one chat for
  each persisted chat, in order: \<open>isCustomTitle\<close> is the persisted value, or false when the
  property is missing (or \<open>null\<close>); every message has \<open>liked\<close>, \<open>disliked\<close>, \<open>status\<close> and
  \<open>version\<close> as persisted, or false, false, done and 0 when missing (or \<open>null\<close>); every
  other property of a chat or a message is as persisted.
\<close>

theorem loadChats_fallback_and_defaults:
  "loadChats parse newId now now' st \<noteq> [] \<and>
   (st = NoWindow \<or> st = Item None \<or> st = Item (Some []) \<or>
    (\<exists>saved. st = Item (Some saved) \<and>
       (parse saved = None \<or>
        (\<exists>v. parse saved = Some v \<and> (\<forall>cs. v \<noteq> JArr cs)) \<or>
        parse saved = Some (JArr []) \<or>
        (\<exists>cs. parse saved = Some (JArr cs) \<and> \<not> list_all loadable cs)))
    \<longrightarrow> loadChats parse newId now now' st = [chatJson (createChat newId now now')]) \<and>
   (\<forall>saved cs. st = Item (Some saved) \<and> saved \<noteq> [] \<and> parse saved = Some (JArr cs) \<and>
        cs \<noteq> [] \<and> list_all loadable cs \<longrightarrow>
      length (loadChats parse newId now now' st) = length cs \<and>
      (\<forall>i < length cs.
         getProp (loadChats parse newId now now' st ! i) (ascii ''isCustomTitle'') =
           Some (nullish (getProp (cs ! i) (ascii ''isCustomTitle'')) (JBool False)) \<and>
         (\<forall>k. k \<noteq> ascii ''isCustomTitle'' \<and> k \<noteq> ascii ''messages'' \<longrightarrow>
            getProp (loadChats parse newId now now' st ! i) k = getProp (cs ! i) k) \<and>
         (\<exists>ms ms'.
            getProp (cs ! i) (ascii ''messages'') = Some (JArr ms) \<and>
            getProp (loadChats parse newId now now' st ! i) (ascii ''messages'') = Some (JArr ms') \<and>
            length ms' = length ms \<and>
            (\<forall>j < length ms.
               getProp (ms' ! j) (ascii ''liked'') =
                 Some (nullish (getProp (ms ! j) (ascii ''liked'')) (JBool False)) \<and>
               getProp (ms' ! j) (ascii ''disliked'') =
                 Some (nullish (getProp (ms ! j) (ascii ''disliked'')) (JBool False)) \<and>
               getProp (ms' ! j) (ascii ''status'') =
                 Some (nullish (getProp (ms ! j) (ascii ''status'')) (JStr (ascii ''done''))) \<and>
               getProp (ms' ! j) (ascii ''version'') =
                 Some (nullish (getProp (ms ! j) (ascii ''version'')) (JNum 0)) \<and>
               (\<forall>k. k \<noteq> ascii ''liked'' \<and> k \<noteq> ascii ''disliked'' \<and> k \<noteq> ascii ''status'' \<and>
                    k \<noteq> ascii ''version'' \<longrightarrow>
                  getProp (ms' ! j) k = getProp (ms ! j) k)))))"
proof (intro conjI)
  let ?default = "[chatJson (createChat newId now now')]"
  let ?r = "loadChats parse newId now now' st"
  have loaded: "?r = r \<and> length r = length cs"
    if "st = Item (Some saved)" "saved \<noteq> []" "parse saved = Some (JArr cs)" "cs \<noteq> []"
       "those (map hydrateChat cs) = Some r" for saved cs r
    using that those_map_nth(1) [OF that(5)] by (simp add: loadChats_def)
  have bad: "?r = ?default"
    if "st = Item (Some saved)" "parse saved = Some (JArr cs)" "\<not> list_all loadable cs"
    for saved cs
  proof -
    have "those (map hydrateChat cs) = None" using that(3) by (simp add: hydrateChats_None)
    then show ?thesis using that(1,2) by (simp add: loadChats_def)
  qed
  have good: "\<exists>r. those (map hydrateChat cs) = Some r" if "list_all loadable cs" for cs
    using that hydrateChats_None [of cs] by (cases "those (map hydrateChat cs)") auto
  show "?r \<noteq> []"
  proof (cases "\<exists>saved cs r. st = Item (Some saved) \<and> saved \<noteq> [] \<and>
                  parse saved = Some (JArr cs) \<and> cs \<noteq> [] \<and> those (map hydrateChat cs) = Some r")
    case True
    then obtain saved cs r where h: "st = Item (Some saved)" "saved \<noteq> []"
      "parse saved = Some (JArr cs)" "cs \<noteq> []" "those (map hydrateChat cs) = Some r"
      by blast
    then show ?thesis using loaded [OF h] by auto
  next
    case False
    then have "?r = ?default"
      by (auto simp: loadChats_def split: storage.splits option.splits json.splits)
    then show ?thesis by simp
  qed
  show "st = NoWindow \<or> st = Item None \<or> st = Item (Some []) \<or>
    (\<exists>saved. st = Item (Some saved) \<and>
       (parse saved = None \<or>
        (\<exists>v. parse saved = Some v \<and> (\<forall>cs. v \<noteq> JArr cs)) \<or>
        parse saved = Some (JArr []) \<or>
        (\<exists>cs. parse saved = Some (JArr cs) \<and> \<not> list_all loadable cs)))
    \<longrightarrow> ?r = ?default"
  proof
    assume "st = NoWindow \<or> st = Item None \<or> st = Item (Some []) \<or>
      (\<exists>saved. st = Item (Some saved) \<and>
         (parse saved = None \<or>
          (\<exists>v. parse saved = Some v \<and> (\<forall>cs. v \<noteq> JArr cs)) \<or>
          parse saved = Some (JArr []) \<or>
          (\<exists>cs. parse saved = Some (JArr cs) \<and> \<not> list_all loadable cs)))"
    then consider "st = NoWindow \<or> st = Item None \<or> st = Item (Some [])"
      | saved where "st = Item (Some saved)" "parse saved = None"
      | saved v where "st = Item (Some saved)" "parse saved = Some v" "\<forall>cs. v \<noteq> JArr cs"
      | saved where "st = Item (Some saved)" "parse saved = Some (JArr [])"
      | saved cs where "st = Item (Some saved)" "parse saved = Some (JArr cs)"
          "\<not> list_all loadable cs"
      by blast
    then show "?r = ?default"
    proof cases
      case 1
      then show ?thesis by (auto simp: loadChats_def)
    next
      case 2
      then show ?thesis by (simp add: loadChats_def)
    next
      case 3
      then show ?thesis by (cases v) (simp_all add: loadChats_def)
    next
      case 4
      then show ?thesis by (simp add: loadChats_def)
    next
      case 5
      then show ?thesis by (rule bad)
    qed
  qed
  show "\<forall>saved cs. st = Item (Some saved) \<and> saved \<noteq> [] \<and> parse saved = Some (JArr cs) \<and>
        cs \<noteq> [] \<and> list_all loadable cs \<longrightarrow>
      length ?r = length cs \<and>
      (\<forall>i < length cs.
         getProp (?r ! i) (ascii ''isCustomTitle'') =
           Some (nullish (getProp (cs ! i) (ascii ''isCustomTitle'')) (JBool False)) \<and>
         (\<forall>k. k \<noteq> ascii ''isCustomTitle'' \<and> k \<noteq> ascii ''messages'' \<longrightarrow>
            getProp (?r ! i) k = getProp (cs ! i) k) \<and>
         (\<exists>ms ms'.
            getProp (cs ! i) (ascii ''messages'') = Some (JArr ms) \<and>
            getProp (?r ! i) (ascii ''messages'') = Some (JArr ms') \<and>
            length ms' = length ms \<and>
            (\<forall>j < length ms.
               getProp (ms' ! j) (ascii ''liked'') =
                 Some (nullish (getProp (ms ! j) (ascii ''liked'')) (JBool False)) \<and>
               getProp (ms' ! j) (ascii ''disliked'') =
                 Some (nullish (getProp (ms ! j) (ascii ''disliked'')) (JBool False)) \<and>
               getProp (ms' ! j) (ascii ''status'') =
                 Some (nullish (getProp (ms ! j) (ascii ''status'')) (JStr (ascii ''done''))) \<and>
               getProp (ms' ! j) (ascii ''version'') =
                 Some (nullish (getProp (ms ! j) (ascii ''version'')) (JNum 0)) \<and>
               (\<forall>k. k \<noteq> ascii ''liked'' \<and> k \<noteq> ascii ''disliked'' \<and> k \<noteq> ascii ''status'' \<and>
                    k \<noteq> ascii ''version'' \<longrightarrow>
                  getProp (ms' ! j) k = getProp (ms ! j) k))))"
  proof (intro allI impI)
    fix saved cs
    assume h: "st = Item (Some saved) \<and> saved \<noteq> [] \<and> parse saved = Some (JArr cs) \<and>
               cs \<noteq> [] \<and> list_all loadable cs"
    then obtain r where r: "those (map hydrateChat cs) = Some r" using good by blast
    have eq: "?r = r" and len: "length r = length cs"
      using loaded [of saved cs r] h r by simp_all
    have each: "getProp (r ! i) (ascii ''isCustomTitle'') =
           Some (nullish (getProp (cs ! i) (ascii ''isCustomTitle'')) (JBool False)) \<and>
         (\<forall>k. k \<noteq> ascii ''isCustomTitle'' \<and> k \<noteq> ascii ''messages'' \<longrightarrow>
            getProp (r ! i) k = getProp (cs ! i) k) \<and>
         (\<exists>ms ms'.
            getProp (cs ! i) (ascii ''messages'') = Some (JArr ms) \<and>
            getProp (r ! i) (ascii ''messages'') = Some (JArr ms') \<and>
            length ms' = length ms \<and>
            (\<forall>j < length ms.
               getProp (ms' ! j) (ascii ''liked'') =
                 Some (nullish (getProp (ms ! j) (ascii ''liked'')) (JBool False)) \<and>
               getProp (ms' ! j) (ascii ''disliked'') =
                 Some (nullish (getProp (ms ! j) (ascii ''disliked'')) (JBool False)) \<and>
               getProp (ms' ! j) (ascii ''status'') =
                 Some (nullish (getProp (ms ! j) (ascii ''status'')) (JStr (ascii ''done''))) \<and>
               getProp (ms' ! j) (ascii ''version'') =
                 Some (nullish (getProp (ms ! j) (ascii ''version'')) (JNum 0)) \<and>
               (\<forall>k. k \<noteq> ascii ''liked'' \<and> k \<noteq> ascii ''disliked'' \<and> k \<noteq> ascii ''status'' \<and>
                    k \<noteq> ascii ''version'' \<longrightarrow>
                  getProp (ms' ! j) k = getProp (ms ! j) k)))"
      if i: "i < length cs" for i
    proof -
      have hc: "hydrateChat (cs ! i) = Some (r ! i)" using r i by (rule those_map_nth(2))
      from getProp_hydrateChat [OF hc]
      obtain ms ms' where ms: "getProp (cs ! i) (ascii ''messages'') = Some (JArr ms)"
        and ms': "those (map hydrateMessage ms) = Some ms'"
        and a: "getProp (r ! i) (ascii ''messages'') = Some (JArr ms')"
        and b: "getProp (r ! i) (ascii ''isCustomTitle'') =
                  Some (nullish (getProp (cs ! i) (ascii ''isCustomTitle'')) (JBool False))"
        and c: "\<forall>k. k \<noteq> ascii ''isCustomTitle'' \<and> k \<noteq> ascii ''messages'' \<longrightarrow>
                  getProp (r ! i) k = getProp (cs ! i) k"
        by blast
      have lm: "length ms' = length ms" using ms' by (rule those_map_nth(1))
      have msgs: "getProp (ms' ! j) (ascii ''liked'') =
                 Some (nullish (getProp (ms ! j) (ascii ''liked'')) (JBool False)) \<and>
               getProp (ms' ! j) (ascii ''disliked'') =
                 Some (nullish (getProp (ms ! j) (ascii ''disliked'')) (JBool False)) \<and>
               getProp (ms' ! j) (ascii ''status'') =
                 Some (nullish (getProp (ms ! j) (ascii ''status'')) (JStr (ascii ''done''))) \<and>
               getProp (ms' ! j) (ascii ''version'') =
                 Some (nullish (getProp (ms ! j) (ascii ''version'')) (JNum 0)) \<and>
               (\<forall>k. k \<noteq> ascii ''liked'' \<and> k \<noteq> ascii ''disliked'' \<and> k \<noteq> ascii ''status'' \<and>
                    k \<noteq> ascii ''version'' \<longrightarrow>
                  getProp (ms' ! j) k = getProp (ms ! j) k)"
        if j: "j < length ms" for j
      proof -
        have hm: "hydrateMessage (ms ! j) = Some (ms' ! j)" using ms' j by (rule those_map_nth(2))
        show ?thesis
          using getProp_hydrateMessage(1-4) [OF hm] getProp_hydrateMessage(5) [OF hm]
          by (intro conjI allI impI) simp_all
      qed
      show ?thesis using ms a b c lm msgs by (intro conjI allI impI exI [of _ ms] exI [of _ ms']) simp_all
    qed
    show "length ?r = length cs \<and>
      (\<forall>i < length cs.
         getProp (?r ! i) (ascii ''isCustomTitle'') =
           Some (nullish (getProp (cs ! i) (ascii ''isCustomTitle'')) (JBool False)) \<and>
         (\<forall>k. k \<noteq> ascii ''isCustomTitle'' \<and> k \<noteq> ascii ''messages'' \<longrightarrow>
            getProp (?r ! i) k = getProp (cs ! i) k) \<and>
         (\<exists>ms ms'.
            getProp (cs ! i) (ascii ''messages'') = Some (JArr ms) \<and>
            getProp (?r ! i) (ascii ''messages'') = Some (JArr ms') \<and>
            length ms' = length ms \<and>
            (\<forall>j < length ms.
               getProp (ms' ! j) (ascii ''liked'') =
                 Some (nullish (getProp (ms ! j) (ascii ''liked'')) (JBool False)) \<and>
               getProp (ms' ! j) (ascii ''disliked'') =
                 Some (nullish (getProp (ms ! j) (ascii ''disliked'')) (JBool False)) \<and>
               getProp (ms' ! j) (ascii ''status'') =
                 Some (nullish (getProp (ms ! j) (ascii ''status'')) (JStr (ascii ''done''))) \<and>
               getProp (ms' ! j) (ascii ''version'') =
                 Some (nullish (getProp (ms ! j) (ascii ''version'')) (JNum 0)) \<and>
               (\<forall>k. k \<noteq> ascii ''liked'' \<and> k \<noteq> ascii ''disliked'' \<and> k \<noteq> ascii ''status'' \<and>
                    k \<noteq> ascii ''version'' \<longrightarrow>
                  getProp (ms' ! j) k = getProp (ms ! j) k))))"
      unfolding eq using len each by blast
  qed
qed

theorem loadChats_fallback_and_defaults_witness:
  "loadChats (\<lambda>saved. Some legacyChats) (ascii ''n1'') 7 8 (Item (Some (ascii ''[{}]''))) =
     [JObj [(ascii ''id'', JStr (ascii ''c1'')),
            (ascii ''title'', JStr (ascii ''Old'')),
            (ascii ''messages'',
               JArr [JObj [(ascii ''id'', JStr (ascii ''m1'')),
                           (ascii ''role'', JStr (ascii ''assistant'')),
                           (ascii ''content'', JStr (ascii ''ok'')),
                           (ascii ''createdAt'', JNum 3),
                           (ascii ''liked'', JBool True),
                           (ascii ''disliked'', JBool False),
                           (ascii ''status'', JStr (ascii ''done'')),
                           (ascii ''version'', JNum 0)]]),
            (ascii ''createdAt'', JNum 1),
            (ascii ''updatedAt'', JNum 2),
            (ascii ''isCustomTitle'', JBool False)]] \<and>
   loadChats (\<lambda>saved. None) (ascii ''n1'') 7 8 (Item (Some (ascii ''[{'')))
     = [chatJson (createChat (ascii ''n1'') 7 8)] \<and>
   loadChats (\<lambda>saved. Some (JArr [JNull])) (ascii ''n1'') 7 8 (Item (Some (ascii ''[null]'')))
     = [chatJson (createChat (ascii ''n1'') 7 8)]"
  using loadChats_fallback_and_defaults
          [of "\<lambda>saved. Some legacyChats" "ascii ''n1''" 7 8 "Item (Some (ascii ''[{}]''))"]
        loadChats_fallback_and_defaults
          [of "\<lambda>saved. None" "ascii ''n1''" 7 8 "Item (Some (ascii ''[{''))"]
        loadChats_fallback_and_defaults
          [of "\<lambda>saved. Some (JArr [JNull])" "ascii ''n1''" 7 8 "Item (Some (ascii ''[null]''))"]
  by (simp add: loadChats_def legacyChats_def hydrateChat_def hydrateMessage_def getProp_def
        nullish_def loadable_def ascii_def)

end
